theory Spec2Isabelle
  imports Complex_Main "HOL-Library.Multiset"
begin

section \<open>Python values and exceptions\<close>

text \<open>
  The exceptions that \<^verbatim>\<open>run.py\<close> and the library calls it makes can raise, as values.
  Floating-point numbers are modelled as exact rationals. The one place where the
  program would go on with a non-finite float (a division of a non-empty array by a
  fold count of zero, which numpy answers with nan and a warning, not an exception)
  is marked \<open>NonFinite\<close>: the exact model has no value for it.
\<close>

datatype pyerr =
    ValueError
  | TypeError
  | IndexError
  | KeyError
  | UnboundLocalError
  | UnpicklingError
  | ZeroDivisionError
  | NonFinite

text \<open>
  The values a toggle of \<^verbatim>\<open>create_figs\<close> takes: a boolean (the defaults \<^verbatim>\<open>True\<close> and
  \<^verbatim>\<open>False\<close>) or a string read from the environment. \<open>truthy\<close> is what \<^verbatim>\<open>if v:\<close> tests.
\<close>

datatype pyval = PyBool bool | PyStr string

fun truthy :: "pyval \<Rightarrow> bool" where
  "truthy (PyBool b) = b"
| "truthy (PyStr s) = (s \<noteq> [])"

type_synonym environ = "string \<rightharpoonup> string"

text \<open>\<^verbatim>\<open>os.environ.get(k, d)\<close>: the string stored under \<open>k\<close>, or the default \<open>d\<close> itself.\<close>

definition environ_get :: "environ \<Rightarrow> string \<Rightarrow> pyval \<Rightarrow> pyval" where
  "environ_get env k d = (case env k of None \<Rightarrow> d | Some s \<Rightarrow> PyStr s)"

section \<open>Library functions used by the aggregator\<close>

subsection \<open>\<^verbatim>\<open>scipy.interp\<close> (an alias of \<^verbatim>\<open>numpy.interp\<close>)\<close>

text \<open>
  \<^verbatim>\<open>interp(x, xp, fp)\<close>: one-dimensional piecewise linear interpolation of the sample
  points \<open>(xp, fp)\<close>, evaluated at each \<open>x\<close>. The library raises \<^verbatim>\<open>ValueError\<close> when
  \<open>xp\<close> is empty and when \<open>fp\<close> and \<open>xp\<close> differ in length. Above \<open>xp[-1]\<close> the result
  is \<open>fp[-1]\<close>, below \<open>xp[0]\<close> it is \<open>fp[0]\<close>. In between the library (numpy 1.10 and
  later) searches the last index \<open>j\<close> with \<open>xp[j] \<le> x\<close> and returns
  \<open>(fp[j+1] - fp[j]) / (xp[j+1] - xp[j]) * (x - xp[j]) + fp[j]\<close>, or \<open>fp[j]\<close> when \<open>j\<close>
  is the last index; so at a value that \<open>xp\<close> repeats, the result is the \<open>fp\<close> of its
  last occurrence. \<open>interp_from\<close> is that search, written as the scan from the left
  that the library uses on short arrays; for non-decreasing \<open>xp\<close> (the only input the
  library documents) its bisection on longer arrays finds the same index.
\<close>

fun interp_from :: "rat \<Rightarrow> rat list \<Rightarrow> rat list \<Rightarrow> rat" where
  "interp_from x (a # c # xp) (b # d # fp) =
     (if x < c then (d - b) / (c - a) * (x - a) + b
      else interp_from x (c # xp) (d # fp))"
| "interp_from x [a] [b] = b"
| "interp_from x _ _ = 0"

definition interp_at :: "rat \<Rightarrow> rat list \<Rightarrow> rat list \<Rightarrow> rat" where
  "interp_at x xp fp =
     (if last xp < x then last fp
      else if x < hd xp then hd fp
      else interp_from x xp fp)"

definition interp :: "rat list \<Rightarrow> rat list \<Rightarrow> rat list \<Rightarrow> pyerr + rat list" where
  "interp x xp fp =
     (if xp = [] then Inl ValueError
      else if length fp \<noteq> length xp then Inl ValueError
      else Inr (map (\<lambda>v. interp_at v xp fp) x))"

subsection \<open>\<^verbatim>\<open>numpy.diff\<close>, \<^verbatim>\<open>numpy.trapz\<close> and \<^verbatim>\<open>sklearn.metrics.auc\<close>\<close>

text \<open>\<^verbatim>\<open>diff(x) = x[1:] - x[:-1]\<close>.\<close>

definition diff :: "rat list \<Rightarrow> rat list" where
  "diff x = map2 (\<lambda>a b. a - b) (tl x) (butlast x)"

text \<open>\<^verbatim>\<open>trapz(y, x) = (diff(x) * (y[1:] + y[:-1]) / 2.0).sum()\<close>.\<close>

definition trapz :: "rat list \<Rightarrow> rat list \<Rightarrow> rat" where
  "trapz y x =
     sum_list (map2 (\<lambda>d s. d * s / 2) (diff x) (map2 (\<lambda>a b. a + b) (tl y) (butlast y)))"

text \<open>
  \<^verbatim>\<open>auc(x, y)\<close> checks that \<open>x\<close> and \<open>y\<close> have one length and at least two points, and
  that \<open>x\<close> is monotonic: when some step of \<open>x\<close> is negative, every step must be
  non-positive and the area is negated; any other order is a \<^verbatim>\<open>ValueError\<close>. The area
  is \<^verbatim>\<open>direction * trapz(y, x)\<close>.
\<close>

definition auc :: "rat list \<Rightarrow> rat list \<Rightarrow> pyerr + rat" where
  "auc x y =
     (if length x \<noteq> length y then Inl ValueError
      else if length x < 2 then Inl ValueError
      else if list_ex (\<lambda>d. d < 0) (diff x) then
        (if list_all (\<lambda>d. d \<le> 0) (diff x) then Inr (- trapz y x) else Inl ValueError)
      else Inr (trapz y x))"

section \<open>The macro-ROC aggregator\<close>

text \<open>
  \<^verbatim>\<open>
  def calc_macro_roc(fpr, tpr):
      all_fpr = sorted(itertools.chain(*fpr))
      mean_tpr = np.zeros_like(all_fpr)
      for i in range(len(tpr)):
          mean_tpr += interp(all_fpr, fpr[i], tpr[i])
      return all_fpr, mean_tpr / len(tpr), auc(all_fpr, mean_tpr) / len(tpr)
  \<close>
  \<open>accumulate\<close> is the loop: \<open>fpr[i]\<close> raises \<^verbatim>\<open>IndexError\<close> when \<open>fpr\<close> is shorter
  than \<open>tpr\<close>, \<open>interp\<close> may raise, and \<open>+=\<close> adds pointwise. (The docstring
  \<^verbatim>\<open>"""Calcs macro ROC on log scale"""\<close> and the comment \<^verbatim>\<open># Create log scale domain\<close> speak of
  a log scale; the code takes no logarithm: the domain is the input FPR values, sorted.)
\<close>

fun accumulate ::
  "rat list \<Rightarrow> rat list list \<Rightarrow> rat list list \<Rightarrow> nat list \<Rightarrow> rat list \<Rightarrow> pyerr + rat list"
where
  "accumulate all_fpr fpr tpr [] mean_tpr = Inr mean_tpr"
| "accumulate all_fpr fpr tpr (i # is) mean_tpr =
     (if length fpr \<le> i then Inl IndexError
      else case interp all_fpr (fpr ! i) (tpr ! i) of
        Inl e \<Rightarrow> Inl e
      | Inr v \<Rightarrow> accumulate all_fpr fpr tpr is (map2 (\<lambda>a b. a + b) mean_tpr v))"

text \<open>
  The returned tuple is evaluated left to right. Dividing the array \<open>mean_tpr\<close> by
  \<open>len(tpr)\<close> never raises; \<open>auc\<close> may; the last division is of a numpy scalar and
  does not raise either. With \<open>len(tpr) = 0\<close> and a domain of two or more points the
  program returns nan values: \<open>NonFinite\<close>.
\<close>

definition calc_macro_roc ::
  "rat list list \<Rightarrow> rat list list \<Rightarrow> pyerr + (rat list \<times> rat list \<times> rat)"
where
  "calc_macro_roc fpr tpr =
     (let all_fpr = sort (concat fpr) in
      case accumulate all_fpr fpr tpr [0..<length tpr] (replicate (length all_fpr) 0) of
        Inl e \<Rightarrow> Inl e
      | Inr mean_tpr \<Rightarrow>
          (case auc all_fpr mean_tpr of
             Inl e \<Rightarrow> Inl e
           | Inr a \<Rightarrow>
               if length tpr = 0 then Inl NonFinite
               else Inr (all_fpr,
                         map (\<lambda>v. v / of_nat (length tpr)) mean_tpr,
                         a / of_nat (length tpr))))"

section \<open>The data the pipeline works on\<close>

text \<open>
  Modelled from the spec: the fold results that \<^verbatim>\<open>dga_classifier.bigram.run\<close> and
  \<^verbatim>\<open>dga_classifier.lstm.run\<close> return (their code is not part of \<^verbatim>\<open>run.py\<close>). A fold
  result is a dictionary with the keys \<^verbatim>\<open>'indata_test'\<close> (the test records, pairs of
  label and domain string), \<^verbatim>\<open>'y'\<close> (the ground-truth labels) and \<^verbatim>\<open>'probs'\<close> (the
  predicted probabilities).
\<close>

record fold_result =
  fold_indata_test :: "(int \<times> string) list"
  fold_y :: "int list"
  fold_probs :: "rat list"

text \<open>
  \<^verbatim>\<open>results = {'bigram': bigram_results, 'lstm': lstm_results}\<close>: a dictionary whose
  values are a list of fold results or \<^verbatim>\<open>None\<close>. It is kept as an association list in
  the order in which \<^verbatim>\<open>for resultset in results\<close> visits the keys.
\<close>

type_synonym combined_results = "(string \<times> fold_result list option) list"

text \<open>
  What \<^verbatim>\<open>run.py\<close> calls and does not define, as parameters: the two model runners
  \<^verbatim>\<open>bigram.run(nfolds, max_epoch)\<close> and \<^verbatim>\<open>lstm.run(nfolds, max_epoch)\<close>,
  \<^verbatim>\<open>sklearn.metrics.roc_curve\<close> (its first two results), the builtin \<^verbatim>\<open>int\<close> on a
  string (\<open>None\<close> when it raises \<^verbatim>\<open>ValueError\<close>), and the order in which the interpreter
  visits the two keys of the results dictionary.
\<close>

record externs =
  bigram_run :: "int \<Rightarrow> int \<Rightarrow> pyerr + fold_result list"
  lstm_run :: "int \<Rightarrow> int \<Rightarrow> pyerr + fold_result list"
  roc_curve :: "int list \<Rightarrow> rat list \<Rightarrow> pyerr + (rat list \<times> rat list)"
  py_int :: "string \<Rightarrow> int option"
  lstm_first :: bool

text \<open>
  The state outside the process: the cache artifact \<^verbatim>\<open>RESULT_FILE\<close> (absent, unreadable
  by \<^verbatim>\<open>pickle.load\<close>, or holding a pickled dictionary), the CSV files by name (each the
  rows below its header \<^verbatim>\<open>domain,real_label,prob,real_y\<close>) and \<^verbatim>\<open>results.png\<close> (the lines
  drawn, each with the name and the AUC of its label). The pickle encoding is not
  modelled: the artifact holds the dictionary that was dumped.
\<close>

datatype artifact = Missing | Malformed | Pickled combined_results

type_synonym csv_row = "string \<times> int \<times> rat \<times> int"

datatype plot_line = Line string "rat list" "rat list" rat

record world =
  artifact :: artifact
  csv_files :: "string \<rightharpoonup> csv_row list"
  results_png :: "plot_line list option"

text \<open>
  Modelled from the spec: \<^verbatim>\<open>pickle.dump(results, open(RESULT_FILE, 'w'))\<close> and
  \<^verbatim>\<open>pickle.load(open(RESULT_FILE))\<close>, the store and the load of the result cache. Their
  code is the pickle library's, not part of \<^verbatim>\<open>run.py\<close>. The specification's contract is
  that the store overwrites the artifact and that the binary form round-trips exactly
  through store and load; the library documents the same, and under Python 2, for which
  \<^verbatim>\<open>run.py\<close> is written, that holds of a file opened in text mode as here (the default
  protocol 0 is text). On Python 3 \<^verbatim>\<open>pickle.dump\<close> raises \<^verbatim>\<open>TypeError\<close> on a file opened in
  text mode, and nothing is stored. Loading an artifact that is no pickle raises.
\<close>

definition pickle_dump :: "combined_results \<Rightarrow> world \<Rightarrow> world" where
  "pickle_dump results w = w\<lparr>artifact := Pickled results\<rparr>"

definition pickle_load :: "world \<Rightarrow> pyerr + combined_results" where
  "pickle_load w =
     (case artifact w of Pickled results \<Rightarrow> Inr results | _ \<Rightarrow> Inl UnpicklingError)"

section \<open>Running the experiments\<close>

text \<open>\<^verbatim>\<open>int(os.environ.get(k, d))\<close> with an integer default \<open>d\<close>.\<close>

definition environ_int :: "externs \<Rightarrow> environ \<Rightarrow> string \<Rightarrow> int \<Rightarrow> pyerr + int" where
  "environ_int ext env k d =
     (case env k of
        None \<Rightarrow> Inr d
      | Some s \<Rightarrow> (case py_int ext s of None \<Rightarrow> Inl ValueError | Some n \<Rightarrow> Inr n))"

text \<open>
  \<^verbatim>\<open>
  def run_experiments(isbigram=True, islstm=True, nfolds=10):
      bigram_results = None
      lstm_results = None
      if isbigram:
          max_bigram_epoch = int(os.environ.get('MAX_BIGRAM_EPOCH', 50))
          bigram_results = bigram.run(nfolds=nfolds, max_epoch=max_bigram_epoch)
      if islstm:
          max_lstm_epoch = int(os.environ.get('MAX_LSTM_EPOCH', 25))
          lstm_results = lstm.run(nfolds=nfolds, max_epoch=max_lstm_epoch)
      return bigram_results, lstm_results
  \<close>
\<close>

definition run_experiments ::
  "externs \<Rightarrow> environ \<Rightarrow> pyval \<Rightarrow> pyval \<Rightarrow> int \<Rightarrow> pyerr + (fold_result list option \<times> fold_result list option)"
where
  "run_experiments ext env isbigram islstm nfolds =
     (case (if truthy isbigram then
              (case environ_int ext env ''MAX_BIGRAM_EPOCH'' 50 of
                 Inl e \<Rightarrow> Inl e
               | Inr max_bigram_epoch \<Rightarrow>
                   (case bigram_run ext nfolds max_bigram_epoch of
                      Inl e \<Rightarrow> Inl e
                    | Inr r \<Rightarrow> Inr (Some r)))
            else Inr None) of
        Inl e \<Rightarrow> Inl e
      | Inr bigram_results \<Rightarrow>
          (case (if truthy islstm then
                   (case environ_int ext env ''MAX_LSTM_EPOCH'' 25 of
                      Inl e \<Rightarrow> Inl e
                    | Inr max_lstm_epoch \<Rightarrow>
                        (case lstm_run ext nfolds max_lstm_epoch of
                           Inl e \<Rightarrow> Inl e
                         | Inr r \<Rightarrow> Inr (Some r)))
                 else Inr None) of
             Inl e \<Rightarrow> Inl e
           | Inr lstm_results \<Rightarrow> Inr (bigram_results, lstm_results)))"

definition mk_results :: "externs \<Rightarrow> fold_result list option \<Rightarrow> fold_result list option \<Rightarrow> combined_results" where
  "mk_results ext bigram_results lstm_results =
     (if lstm_first ext then [(''lstm'', lstm_results), (''bigram'', bigram_results)]
      else [(''bigram'', bigram_results), (''lstm'', lstm_results)])"

section \<open>Writing the CSV files\<close>

text \<open>\<^verbatim>\<open>'{0}-{1}-resultset.csv'.format(resultset, nfold)\<close>, with the decimal digits of \<open>nfold\<close>.\<close>

function str_nat :: "nat \<Rightarrow> string" where
  "str_nat n =
     (if n < 10 then [''0123456789'' ! n]
      else str_nat (n div 10) @ [''0123456789'' ! (n mod 10)])"
  by pat_completeness auto
termination
  by (relation "measure id") auto

declare str_nat.simps [simp del]

definition csv_name :: "string \<Rightarrow> nat \<Rightarrow> string" where
  "csv_name resultset nfold = resultset @ ''-'' @ str_nat nfold @ ''-resultset.csv''"

text \<open>
  \<^verbatim>\<open>
  def write_results_to_csv(results):
      for resultset in results:
          for nfold in range(len(results[resultset])):
              fold = results[resultset][nfold]
              csv_file = open('{0}-{1}-resultset.csv'.format(resultset, nfold), 'w')
              writer = csv.DictWriter(csv_file, fieldnames=['domain', 'real_label', 'prob', 'real_y'])
              writer.writeheader()
              for i in range(len(fold['indata_test'])):
                  row = {'domain': fold['indata_test'][i][1],
                         'real_label': fold['indata_test'][i][0],
                         'real_y': fold['y'][i],
                         'prob': float(fold['probs'][i])}
                  writer.writerow(row)
              csv_file.close()
  \<close>
  The three loops, innermost first. A list index out of range is \<^verbatim>\<open>IndexError\<close>;
  \<^verbatim>\<open>len(None)\<close> is \<^verbatim>\<open>TypeError\<close>. A file opened before an exception stays, with the rows
  written so far.
\<close>

fun write_rows :: "fold_result \<Rightarrow> nat list \<Rightarrow> csv_row list \<Rightarrow> pyerr option \<times> csv_row list" where
  "write_rows fd [] rows = (None, rows)"
| "write_rows fd (i # is) rows =
     (if length (fold_y fd) \<le> i \<or> length (fold_probs fd) \<le> i then (Some IndexError, rows)
      else write_rows fd is
             (rows @ [(snd (fold_indata_test fd ! i), fst (fold_indata_test fd ! i),
                       fold_probs fd ! i, fold_y fd ! i)]))"

fun write_folds ::
  "string \<Rightarrow> fold_result list \<Rightarrow> nat list \<Rightarrow> (string \<rightharpoonup> csv_row list) \<Rightarrow>
   pyerr option \<times> (string \<rightharpoonup> csv_row list)"
where
  "write_folds resultset folds [] files = (None, files)"
| "write_folds resultset folds (nfold # ns) files =
     (case write_rows (folds ! nfold) [0..<length (fold_indata_test (folds ! nfold))] [] of
        (Some e, rows) \<Rightarrow> (Some e, files(csv_name resultset nfold \<mapsto> rows))
      | (None, rows) \<Rightarrow>
          write_folds resultset folds ns (files(csv_name resultset nfold \<mapsto> rows)))"

fun write_resultsets ::
  "combined_results \<Rightarrow> string list \<Rightarrow> (string \<rightharpoonup> csv_row list) \<Rightarrow>
   pyerr option \<times> (string \<rightharpoonup> csv_row list)"
where
  "write_resultsets results [] files = (None, files)"
| "write_resultsets results (resultset # rest) files =
     (case map_of results resultset of
        None \<Rightarrow> (Some KeyError, files)
      | Some None \<Rightarrow> (Some TypeError, files)
      | Some (Some folds) \<Rightarrow>
          (case write_folds resultset folds [0..<length folds] files of
             (Some e, files') \<Rightarrow> (Some e, files')
           | (None, files') \<Rightarrow> write_resultsets results rest files'))"

definition write_results_to_csv :: "combined_results \<Rightarrow> world \<Rightarrow> pyerr option \<times> world" where
  "write_results_to_csv results w =
     (case write_resultsets results (map fst results) (csv_files w) of
        (err, files) \<Rightarrow> (err, w\<lparr>csv_files := files\<rparr>))"

section \<open>Creating the figure\<close>

text \<open>
  The loop over the folds of one model: \<^verbatim>\<open>roc_curve(result['y'], result['probs'])\<close>,
  appended to \<open>fpr\<close> and \<open>tpr\<close>.
\<close>

fun roc_curves ::
  "externs \<Rightarrow> fold_result list \<Rightarrow> rat list list \<Rightarrow> rat list list \<Rightarrow> pyerr + (rat list list \<times> rat list list)"
where
  "roc_curves ext [] fpr tpr = Inr (fpr, tpr)"
| "roc_curves ext (r # rs) fpr tpr =
     (case roc_curve ext (fold_y r) (fold_probs r) of
        Inl e \<Rightarrow> Inl e
      | Inr (t_fpr, t_tpr) \<Rightarrow> roc_curves ext rs (fpr @ [t_fpr]) (tpr @ [t_tpr]))"

text \<open>
  \<^verbatim>\<open>if results[k]: ... = calc_macro_roc(fpr, tpr)\<close>. \<^verbatim>\<open>None\<close> and the empty list are
  false: the three variables of that model are then left unbound (\<open>None\<close> here).
\<close>

definition model_macro ::
  "externs \<Rightarrow> combined_results \<Rightarrow> string \<Rightarrow> pyerr + (rat list \<times> rat list \<times> rat) option"
where
  "model_macro ext results k =
     (case map_of results k of
        None \<Rightarrow> Inl KeyError
      | Some None \<Rightarrow> Inr None
      | Some (Some []) \<Rightarrow> Inr None
      | Some (Some folds) \<Rightarrow>
          (case roc_curves ext folds [] [] of
             Inl e \<Rightarrow> Inl e
           | Inr (fpr, tpr) \<Rightarrow>
               (case calc_macro_roc fpr tpr of Inl e \<Rightarrow> Inl e | Inr m \<Rightarrow> Inr (Some m))))"

text \<open>
  \<^verbatim>\<open>
  if force or (not os.path.isfile(RESULT_FILE)):
      bigram_results, lstm_results = run_experiments(isbigram, islstm, nfolds)
      results = {'bigram': bigram_results, 'lstm': lstm_results}
      pickle.dump(results, open(RESULT_FILE, 'w'))
  else:
      results = pickle.load(open(RESULT_FILE))
  \<close>
\<close>

definition load_or_run ::
  "externs \<Rightarrow> environ \<Rightarrow> pyval \<Rightarrow> pyval \<Rightarrow> int \<Rightarrow> pyval \<Rightarrow> world \<Rightarrow> pyerr + (combined_results \<times> world)"
where
  "load_or_run ext env isbigram islstm nfolds force w =
     (if truthy force \<or> artifact w = Missing then
        (case run_experiments ext env isbigram islstm nfolds of
           Inl e \<Rightarrow> Inl e
         | Inr (bigram_results, lstm_results) \<Rightarrow>
             Inr (mk_results ext bigram_results lstm_results,
                  w\<lparr>artifact := Pickled (mk_results ext bigram_results lstm_results)\<rparr>))
      else
        (case artifact w of
           Pickled results \<Rightarrow> Inr (results, w)
         | _ \<Rightarrow> Inl UnpicklingError))"

text \<open>
  The plot: the LSTM line is drawn first, then the bigram line; reading an unbound
  variable is \<^verbatim>\<open>UnboundLocalError\<close>, and \<^verbatim>\<open>results.png\<close> is saved after both lines.
\<close>

definition save_figure ::
  "(rat list \<times> rat list \<times> rat) option \<Rightarrow> (rat list \<times> rat list \<times> rat) option \<Rightarrow> world \<Rightarrow>
   pyerr option \<times> world"
where
  "save_figure lstm_binary bigram_binary w =
     (case lstm_binary of
        None \<Rightarrow> (Some UnboundLocalError, w)
      | Some (lstm_binary_fpr, lstm_binary_tpr, lstm_binary_auc) \<Rightarrow>
          (case bigram_binary of
             None \<Rightarrow> (Some UnboundLocalError, w)
           | Some (bigram_binary_fpr, bigram_binary_tpr, bigram_binary_auc) \<Rightarrow>
               (None, w\<lparr>results_png :=
                  Some [Line ''LSTM'' lstm_binary_fpr lstm_binary_tpr lstm_binary_auc,
                        Line ''Bigrams'' bigram_binary_fpr bigram_binary_tpr bigram_binary_auc]\<rparr>)))"

text \<open>
  \<^verbatim>\<open>create_figs(isbigram, islstm, nfolds, force)\<close>: load or regenerate the results, write
  the CSV files, aggregate each model's ROC curves, save the figure. The result is the
  exception raised, if any, and the state left behind.
\<close>

definition create_figs ::
  "externs \<Rightarrow> environ \<Rightarrow> pyval \<Rightarrow> pyval \<Rightarrow> int \<Rightarrow> pyval \<Rightarrow> world \<Rightarrow> pyerr option \<times> world"
where
  "create_figs ext env isbigram islstm nfolds force w =
     (case load_or_run ext env isbigram islstm nfolds force w of
        Inl e \<Rightarrow> (Some e, w)
      | Inr (results, w1) \<Rightarrow>
          (case write_results_to_csv results w1 of
             (Some e, w2) \<Rightarrow> (Some e, w2)
           | (None, w2) \<Rightarrow>
               (case model_macro ext results ''bigram'' of
                  Inl e \<Rightarrow> (Some e, w2)
                | Inr bigram_binary \<Rightarrow>
                    (case model_macro ext results ''lstm'' of
                       Inl e \<Rightarrow> (Some e, w2)
                     | Inr lstm_binary \<Rightarrow> save_figure lstm_binary bigram_binary w2))))"

text \<open>
  The defaults of \<^verbatim>\<open>create_figs\<close>:
  \<^verbatim>\<open>isbigram=os.environ.get('BIGRAM', True)\<close>, \<^verbatim>\<open>islstm=os.environ.get('LSTM', True)\<close>,
  \<^verbatim>\<open>force=os.environ.get('FORCE', False)\<close>; and the entry point
  \<^verbatim>\<open>create_figs(nfolds=int(os.environ.get('NFOLDS', 1)))\<close>.
\<close>

definition default_isbigram :: "environ \<Rightarrow> pyval" where
  "default_isbigram env = environ_get env ''BIGRAM'' (PyBool True)"

definition default_islstm :: "environ \<Rightarrow> pyval" where
  "default_islstm env = environ_get env ''LSTM'' (PyBool True)"

definition default_force :: "environ \<Rightarrow> pyval" where
  "default_force env = environ_get env ''FORCE'' (PyBool False)"

definition main :: "externs \<Rightarrow> environ \<Rightarrow> world \<Rightarrow> pyerr option \<times> world" where
  "main ext env w =
     (case environ_int ext env ''NFOLDS'' 1 of
        Inl e \<Rightarrow> (Some e, w)
      | Inr nfolds \<Rightarrow>
          create_figs ext env (default_isbigram env) (default_islstm env) nfolds
            (default_force env) w)"

section \<open>The aggregator's contract, in the specification's words\<close>

text \<open>
  The TPR sequence of one curve \<open>(f, t)\<close> interpolated onto a shared domain, the
  interpolated sequences of all curves, and their pointwise sum and pointwise average
  (the sum divided by the number of sequences) over the first \<open>m\<close> positions.
\<close>

definition interpolated :: "rat list \<Rightarrow> rat list \<Rightarrow> rat list \<Rightarrow> rat list" where
  "interpolated grid f t = map (\<lambda>x. interp_at x f t) grid"

definition interpolated_curves :: "rat list \<Rightarrow> rat list list \<Rightarrow> rat list list \<Rightarrow> rat list list" where
  "interpolated_curves grid fpr tpr = map2 (interpolated grid) fpr tpr"

definition pointwise_sum :: "rat list list \<Rightarrow> nat \<Rightarrow> rat list" where
  "pointwise_sum seqs m = map (\<lambda>k. sum_list (map (\<lambda>s. s ! k) seqs)) [0..<m]"

definition pointwise_average :: "rat list list \<Rightarrow> nat \<Rightarrow> rat list" where
  "pointwise_average seqs m =
     map (\<lambda>k. sum_list (map (\<lambda>s. s ! k) seqs) / of_nat (length seqs)) [0..<m]"

text \<open>
  Well-formed input: as many TPR sequences as FPR sequences, every curve with at least
  one point and with a TPR value for each FPR value.
\<close>

definition curves_ok :: "rat list list \<Rightarrow> rat list list \<Rightarrow> bool" where
  "curves_ok fpr tpr = list_all2 (\<lambda>f t. f \<noteq> [] \<and> length t = length f) fpr tpr"

section \<open>Sample data\<close>

text \<open>
  One fold of two test records, collaborators that return it for either model and the
  ROC curve of a perfect classifier for it, a state with no files, and a state whose
  cache artifact holds the results of both models.
\<close>

definition demo_fold :: fold_result where
  "demo_fold = \<lparr>fold_indata_test = [(0, ''example.com''), (1, ''xkqzv.biz'')],
                 fold_y = [0, 1], fold_probs = [1/4, 3/4]\<rparr>"

definition demo_externs :: "bool \<Rightarrow> externs" where
  "demo_externs lf =
     \<lparr>bigram_run = (\<lambda>nfolds max_epoch. Inr [demo_fold]),
      lstm_run = (\<lambda>nfolds max_epoch. Inr [demo_fold]),
      roc_curve = (\<lambda>y_true y_score. Inr ([0, 0, 1], [0, 1, 1])),
      py_int = (\<lambda>s. None),
      lstm_first = lf\<rparr>"

definition fresh_world :: world where
  "fresh_world = \<lparr>artifact = Missing, csv_files = Map.empty, results_png = None\<rparr>"

definition cached_world :: world where
  "cached_world =
     \<lparr>artifact = Pickled [(''bigram'', Some [demo_fold]), (''lstm'', Some [demo_fold])],
      csv_files = Map.empty, results_png = None\<rparr>"

section \<open>Facts about the library functions\<close>

lemma diff_simps:
  "diff [] = []" "diff [a] = []" "diff (a # b # xs) = (b - a) # diff (b # xs)"
  by (simp_all add: diff_def)

lemma trapz_simps:
  "trapz [] x = 0" "trapz [y0] x = 0" "trapz y [] = 0" "trapz y [x0] = 0"
  "trapz (y0 # y1 # ys) (x0 # x1 # xs) = (x1 - x0) * (y1 + y0) / 2 + trapz (y1 # ys) (x1 # xs)"
  by (simp_all add: trapz_def diff_def)

lemma diff_sorted_nonneg: "sorted x \<Longrightarrow> \<forall>d\<in>set (diff x). 0 \<le> d"
  by (induction x rule: induct_list012) (auto simp: diff_simps)

lemma auc_sorted:
  assumes "sorted x" "length y = length x" "2 \<le> length x"
  shows "auc x y = Inr (trapz y x)"
proof -
  have "\<not> list_ex (\<lambda>d. d < 0) (diff x)"
    using diff_sorted_nonneg [OF assms(1)] by (auto simp: list_ex_iff)
  with assms show ?thesis by (simp add: auc_def)
qed

lemma trapz_scale: "trapz (map (\<lambda>v. v / c) y) x = trapz y x / c"
proof (induction y arbitrary: x)
  case Nil
  show ?case by (simp add: trapz_simps)
next
  case (Cons y0 ys)
  show ?case
  proof (cases ys)
    case Nil
    then show ?thesis by (simp add: trapz_simps)
  next
    case ys: (Cons y1 ys')
    show ?thesis
    proof (cases x)
      case Nil
      then show ?thesis by (simp add: trapz_simps)
    next
      case x: (Cons x0 xs)
      show ?thesis
      proof (cases xs)
        case Nil
        with x show ?thesis by (simp add: trapz_simps)
      next
        case (Cons x1 xs')
        have "(x1 - x0) * (y1 / c + y0 / c) / 2 = (x1 - x0) * (y1 + y0) / 2 / c"
          by (simp add: add_divide_distrib [symmetric])
        with Cons x ys Cons.IH [of xs] show ?thesis
          by (simp add: trapz_simps add_divide_distrib)
      qed
    qed
  qed
qed

lemma map2_add_assoc:
  "map2 (\<lambda>a b. a + b) (map2 (\<lambda>a b. a + b) acc (map f xs)) (map h xs) =
   map2 (\<lambda>a b. a + b) acc (map (\<lambda>x. f x + h x) xs)" for acc :: "rat list"
proof (induction xs arbitrary: acc)
  case (Cons x xs) then show ?case by (cases acc) (simp_all add: add.assoc)
qed simp

lemma map2_add_zeros:
  "map2 (\<lambda>a b. a + b) (replicate (length xs) 0) (map h xs) = map h xs" for h :: "'a \<Rightarrow> rat"
  by (induction xs) simp_all

lemma map2_add_zeros_right:
  "length acc = length xs \<Longrightarrow> map2 (\<lambda>a b. a + b) acc (map (\<lambda>x. 0) xs) = acc" for acc :: "rat list"
  by (induction acc xs rule: list_induct2) simp_all

lemma interp_from_own_point:
  "length xp = length fp \<Longrightarrow> sorted_wrt (<) xp \<Longrightarrow> k < length xp \<Longrightarrow>
   interp_from (xp ! k) xp fp = fp ! k"
proof (induction xp fp arbitrary: k rule: list_induct2)
  case Nil
  then show ?case by simp
next
  case (Cons a xp b fp)
  show ?case
  proof (cases xp)
    case Nil
    with Cons.hyps Cons.prems show ?thesis by simp
  next
    case xp: (Cons c xs)
    then obtain d fs where fp: "fp = d # fs" using Cons.hyps by (cases fp) auto
    show ?thesis
    proof (cases k)
      case 0
      with xp fp Cons.prems show ?thesis by simp
    next
      case (Suc k')
      have "c \<le> xp ! k'" using Cons.prems Suc xp
        by (cases k') (auto simp: less_imp_le)
      with Cons.IH [of k'] Cons.prems Suc xp fp show ?thesis by simp
    qed
  qed
qed

lemma interp_at_own_point:
  assumes "length xp = length fp" "sorted_wrt (<) xp" "k < length xp"
  shows "interp_at (xp ! k) xp fp = fp ! k"
proof -
  have s: "sorted xp" using assms(2) by (simp add: strict_sorted_iff)
  have ne: "xp \<noteq> []" using assms(3) by auto
  have "hd xp \<le> xp ! k" using s assms(3) ne
    by (simp add: hd_conv_nth sorted_iff_nth_mono)
  moreover have "xp ! k \<le> last xp" using s assms(3) ne
    by (simp add: last_conv_nth sorted_iff_nth_mono)
  ultimately show ?thesis
    using interp_from_own_point [OF assms] by (simp add: interp_at_def)
qed

lemma interpolated_own_points:
  assumes "length t = length f" "sorted_wrt (<) f"
  shows "interpolated f f t = t"
  using assms by (intro nth_equalityI) (simp_all add: interpolated_def interp_at_own_point)

section \<open>The loop and the value of the aggregator\<close>

lemma accumulate_sum:
  assumes "\<forall>i\<in>set is. i < length fpr \<and> fpr ! i \<noteq> [] \<and> length (tpr ! i) = length (fpr ! i)"
    and "length acc = length grid"
  shows "accumulate grid fpr tpr is acc =
     Inr (map2 (\<lambda>a b. a + b) acc
            (map (\<lambda>x. sum_list (map (\<lambda>i. interp_at x (fpr ! i) (tpr ! i)) is)) grid))"
  using assms
proof (induction "is" arbitrary: acc)
  case Nil
  then show ?case by (simp add: map2_add_zeros_right)
next
  case (Cons i "is")
  let ?v = "map (\<lambda>x. interp_at x (fpr ! i) (tpr ! i)) grid"
  have i: "interp grid (fpr ! i) (tpr ! i) = Inr ?v"
    using Cons.prems(1) by (simp add: interp_def)
  have len: "length (map2 (\<lambda>a b. a + b) acc ?v) = length grid"
    using Cons.prems(2) by simp
  have "accumulate grid fpr tpr (i # is) acc =
        accumulate grid fpr tpr is (map2 (\<lambda>a b. a + b) acc ?v)"
    using Cons.prems(1) i by simp
  also have "\<dots> = Inr (map2 (\<lambda>a b. a + b) (map2 (\<lambda>a b. a + b) acc ?v)
            (map (\<lambda>x. sum_list (map (\<lambda>i. interp_at x (fpr ! i) (tpr ! i)) is)) grid))"
    using Cons.prems(1) len by (intro Cons.IH) simp_all
  finally show ?case by (simp add: map2_add_assoc)
qed

lemma map_index_zip:
  "length xs = length ys \<Longrightarrow> map (\<lambda>i. h (xs ! i) (ys ! i)) [0..<length ys] = map2 h xs ys"
  by (rule nth_equalityI) simp_all

lemma sums_pointwise:
  "map (\<lambda>x. sum_list (map2 (\<lambda>f t. interp_at x f t) fpr tpr)) grid =
   pointwise_sum (interpolated_curves grid fpr tpr) (length grid)"
  by (rule nth_equalityI)
     (simp_all add: pointwise_sum_def interpolated_curves_def interpolated_def
       map_zip_map2 o_def split_def cong: map_cong)

lemma pointwise_average_sum:
  "map (\<lambda>v. v / of_nat (length seqs)) (pointwise_sum seqs m) = pointwise_average seqs m"
  by (simp add: pointwise_sum_def pointwise_average_def)

lemma length_pointwise_sum: "length (pointwise_sum seqs m) = m"
  by (simp add: pointwise_sum_def)

lemma curves_okD:
  assumes "curves_ok fpr tpr"
  shows "length fpr = length tpr"
    and "\<forall>i\<in>set [0..<length tpr]. i < length fpr \<and> fpr ! i \<noteq> [] \<and> length (tpr ! i) = length (fpr ! i)"
  using assms by (auto simp: curves_ok_def list_all2_conv_all_nth)

lemma calc_macro_roc_value:
  assumes ok: "curves_ok fpr tpr" and ne: "tpr \<noteq> []" and two: "2 \<le> length (concat fpr)"
  shows "calc_macro_roc fpr tpr =
     Inr (sort (concat fpr),
          pointwise_average (interpolated_curves (sort (concat fpr)) fpr tpr) (length (concat fpr)),
          trapz (pointwise_sum (interpolated_curves (sort (concat fpr)) fpr tpr) (length (concat fpr)))
                (sort (concat fpr)) / of_nat (length tpr))"
proof -
  let ?g = "sort (concat fpr)"
  let ?S = "pointwise_sum (interpolated_curves ?g fpr tpr) (length (concat fpr))"
  have len: "length fpr = length tpr" by (rule curves_okD(1) [OF ok])
  have "accumulate ?g fpr tpr [0..<length tpr] (replicate (length ?g) 0) =
        Inr (map2 (\<lambda>a b. a + b) (replicate (length ?g) 0)
               (map (\<lambda>x. sum_list (map (\<lambda>i. interp_at x (fpr ! i) (tpr ! i)) [0..<length tpr])) ?g))"
    by (rule accumulate_sum [OF curves_okD(2) [OF ok]]) simp
  also have "\<dots> = Inr (map (\<lambda>x. sum_list (map2 (\<lambda>f t. interp_at x f t) fpr tpr)) ?g)"
    by (simp only: map2_add_zeros map_index_zip [OF len])
  also have "\<dots> = Inr ?S"
    by (simp add: sums_pointwise)
  finally have acc: "accumulate ?g fpr tpr [0..<length tpr] (replicate (length ?g) 0) = Inr ?S" .
  have auc: "auc ?g ?S = Inr (trapz ?S ?g)"
    using two by (intro auc_sorted) (simp_all add: length_pointwise_sum)
  have n: "length (interpolated_curves ?g fpr tpr) = length tpr"
    using len by (simp add: interpolated_curves_def)
  have avg: "map (\<lambda>v. v / of_nat (length tpr)) ?S =
      pointwise_average (interpolated_curves ?g fpr tpr) (length (concat fpr))"
    using pointwise_average_sum [of "interpolated_curves ?g fpr tpr" "length (concat fpr)"]
    by (simp only: n)
  have acc': "accumulate ?g fpr tpr [0..<length tpr] (replicate (length (concat fpr)) 0) = Inr ?S"
    using acc by simp
  show ?thesis
    using ne by (simp add: calc_macro_roc_def Let_def acc' auc avg)
qed

lemma pointwise_single:
  "pointwise_average [s] (length s) = s" "pointwise_sum [s] (length s) = s"
  by (simp_all add: pointwise_average_def pointwise_sum_def map_nth)

section \<open>Properties of the aggregator\<close>

text \<open>
  C1 (amended). Whenever \<open>calc_macro_roc\<close> returns, the shared x-domain it returns is
  the ascending sort of all FPR values of all input curves with duplicates kept: it has
  the same multiset of values as the concatenation of the input FPR sequences, so its
  length is the total number of input points, and its set of values is the union of the
  FPR values of the curves. It does return for well-formed input curves, at least one
  of them and at least two points in all.
\<close>

theorem calc_macro_roc_domain:
  "(\<forall>grid macro a. calc_macro_roc fpr tpr = Inr (grid, macro, a) \<longrightarrow>
      grid = sort (concat fpr) \<and> sorted grid \<and> mset grid = mset (concat fpr) \<and>
      set grid = \<Union> (set ` set fpr) \<and> length grid = sum_list (map length fpr)) \<and>
   (curves_ok fpr tpr \<and> tpr \<noteq> [] \<and> 2 \<le> length (concat fpr) \<longrightarrow>
      (\<exists>grid macro a. calc_macro_roc fpr tpr = Inr (grid, macro, a)))"
proof -
  have "grid = sort (concat fpr)" if "calc_macro_roc fpr tpr = Inr (grid, macro, a)"
    for grid macro a
    using that by (auto simp: calc_macro_roc_def Let_def split: sum.splits if_splits)
  moreover have "\<exists>grid macro a. calc_macro_roc fpr tpr = Inr (grid, macro, a)"
    if "curves_ok fpr tpr" and "tpr \<noteq> []" and "2 \<le> length (concat fpr)"
    using calc_macro_roc_value [OF that] by simp
  ultimately show ?thesis
    by (auto simp: length_concat)
qed

text \<open>The theorem at the two diagonal curves \<open>([0,1/2,1], [0,1/2,1])\<close> and \<open>([0,1], [0,1])\<close>.\<close>

theorem calc_macro_roc_domain_witness:
  "curves_ok [[0, 1/2, 1], [0, 1]] [[0, 1/2, 1], [0, 1]] \<and>
   fst (projr (calc_macro_roc [[0, 1/2, 1], [0, 1]] [[0, 1/2, 1], [0, 1]])) = [0, 0, 1/2, 1, 1]"
  using calc_macro_roc_domain [of "[[0, 1/2, 1], [0, 1]]" "[[0, 1/2, 1], [0, 1]]"]
  by (auto simp: curves_ok_def)

text \<open>
  The domain is not the sorted set of the FPR values: two copies of the curve
  \<open>([0,1], [0,1])\<close> give the domain \<open>[0,0,1,1]\<close> of four points, while the two distinct
  FPR values are \<open>[0,1]\<close>.
\<close>

theorem calc_macro_roc_domain_keeps_duplicates:
  "calc_macro_roc [[0, 1], [0, 1]] [[0, 1], [0, 1]] = Inr ([0, 0, 1, 1], [0, 0, 1, 1], 1/2) \<and>
   fst (projr (calc_macro_roc [[0, 1], [0, 1]] [[0, 1], [0, 1]])) \<noteq>
     sorted_list_of_set (set (concat [[0, 1], [0, 1 :: rat]])) \<and>
   length (fst (projr (calc_macro_roc [[0, 1], [0, 1]] [[0, 1], [0, 1]]))) \<noteq>
     card (set (concat [[0, 1], [0, 1 :: rat]]))"
proof -
  have v: "calc_macro_roc [[0, 1], [0, 1]] [[0, 1], [0, 1]] =
           Inr ([0, 0, 1, 1], [0, 0, 1, 1], 1/2)"
    by (simp add: calc_macro_roc_def Let_def interp_def interp_at_def auc_def trapz_def
        diff_def upt_rec [of 0] upt_rec [of 1] upt_rec [of 2])
  have s: "sorted_list_of_set (set (concat [[0, 1], [0, 1 :: rat]])) = [0, 1]"
    by (subst sorted_list_of_set_sort_remdups) simp
  have c: "card (set (concat [[0, 1], [0, 1 :: rat]])) = 2"
    by (subst card_set) simp
  show ?thesis by (simp only: v s c) simp
qed

text \<open>
  C2 (amended). For well-formed input curves, at least one of them and at least two
  points in all, the macro TPR sequence that \<open>calc_macro_roc\<close> returns is the pointwise
  average (sum divided by fold count) of the per-curve TPR sequences interpolated onto
  the shared domain. The returned AUC is the trapezoidal integral of the pointwise sum
  of those sequences over the shared domain, divided by the fold count; that is the
  trapezoidal integral of the macro TPR sequence itself, not divided again.
\<close>

theorem calc_macro_roc_average:
  assumes "curves_ok fpr tpr" and "tpr \<noteq> []" and "2 \<le> length (concat fpr)"
  shows "\<exists>grid macro a. calc_macro_roc fpr tpr = Inr (grid, macro, a) \<and>
           macro = pointwise_average (interpolated_curves grid fpr tpr) (length grid) \<and>
           a = trapz (pointwise_sum (interpolated_curves grid fpr tpr) (length grid)) grid
                 / of_nat (length tpr) \<and>
           a = trapz macro grid"
proof -
  let ?g = "sort (concat fpr)"
  let ?seqs = "interpolated_curves ?g fpr tpr"
  have n: "length ?seqs = length tpr"
    using curves_okD(1) [OF assms(1)] by (simp add: interpolated_curves_def)
  have avg: "map (\<lambda>v. v / of_nat (length tpr)) (pointwise_sum ?seqs (length ?g)) =
             pointwise_average ?seqs (length ?g)"
    using pointwise_average_sum [of ?seqs "length ?g"] by (simp only: n)
  have "trapz (pointwise_average ?seqs (length ?g)) ?g =
        trapz (pointwise_sum ?seqs (length ?g)) ?g / of_nat (length tpr)"
    using trapz_scale [of "of_nat (length tpr)" "pointwise_sum ?seqs (length ?g)" ?g]
    by (simp only: avg)
  then show ?thesis
    using calc_macro_roc_value [OF assms] by simp
qed

text \<open>
  The theorem at the diagonal sampled at three points and at two points: the macro
  curve is the diagonal again, with AUC \<open>1/2\<close>.
\<close>

theorem calc_macro_roc_average_witness:
  "curves_ok [[0, 1/2, 1], [0, 1]] [[0, 1/2, 1], [0, 1]] \<and>
   calc_macro_roc [[0, 1/2, 1], [0, 1]] [[0, 1/2, 1], [0, 1]] =
     Inr ([0, 0, 1/2, 1, 1], [0, 0, 1/2, 1, 1], 1/2) \<and>
   trapz [0, 0, 1/2, 1, 1] [0, 0, 1/2, 1, 1] = 1/2"
  using calc_macro_roc_average [of "[[0, 1/2, 1], [0, 1]]" "[[0, 1/2, 1], [0, 1]]"]
  by (simp add: curves_ok_def calc_macro_roc_def Let_def interp_def interp_at_def auc_def
      trapz_def diff_def upt_rec [of 0] upt_rec [of 1] upt_rec [of 2])

text \<open>
  The AUC is not the integral of the macro TPR sequence divided by the fold count: two
  folds with the constant curve \<open>([0,1], [1,1])\<close> have the macro TPR sequence
  \<open>[1,1,1,1]\<close> over the domain \<open>[0,0,1,1]\<close> and the AUC \<open>1\<close>; the integral of the macro
  sequence divided by the two folds is \<open>1/2\<close>.
\<close>

theorem calc_macro_roc_auc_divided_once:
  "calc_macro_roc [[0, 1], [0, 1]] [[1, 1], [1, 1]] = Inr ([0, 0, 1, 1], [1, 1, 1, 1], 1) \<and>
   trapz [1, 1, 1, 1] [0, 0, 1, 1] / 2 = 1/2 \<and>
   snd (snd (projr (calc_macro_roc [[0, 1], [0, 1]] [[1, 1], [1, 1]]))) \<noteq>
     trapz (fst (snd (projr (calc_macro_roc [[0, 1], [0, 1]] [[1, 1], [1, 1]]))))
           (fst (projr (calc_macro_roc [[0, 1], [0, 1]] [[1, 1], [1, 1]]))) / 2"
  by (simp add: calc_macro_roc_def interp_def interp_at_def auc_def trapz_def diff_def
      upt_rec [of 0] upt_rec [of 1] upt_rec [of 2])

text \<open>
  C3 (amended). For every single ROC curve with strictly increasing FPR, at least two
  points and a TPR value for each FPR value, \<open>calc_macro_roc\<close> on the one-element
  sequence holding that curve returns the curve's FPR and TPR sequences unchanged and
  an AUC equal to the trapezoidal integral over the curve's own points.
\<close>

theorem calc_macro_roc_single_curve:
  assumes "sorted_wrt (<) f" and "length t = length f" and "2 \<le> length f"
  shows "calc_macro_roc [f] [t] = Inr (f, t, trapz t f)"
proof -
  have s: "sort f = f" using assms(1) by (simp add: strict_sorted_iff sorted_sort_id)
  have ok: "curves_ok [f] [t]" using assms by (auto simp: curves_ok_def)
  have i: "interpolated_curves f [f] [t] = [t]"
    using assms by (simp add: interpolated_curves_def interpolated_own_points)
  show ?thesis
    using calc_macro_roc_value [OF ok] assms pointwise_single [of t]
    by (simp add: s i)
qed

text \<open>The theorem at the curve \<open>([0, 1/4, 1], [0, 3/4, 1])\<close>, whose area is \<open>3/4\<close>.\<close>

theorem calc_macro_roc_single_curve_witness:
  "sorted_wrt (<) [0, 1/4, 1 :: rat] \<and>
   calc_macro_roc [[0, 1/4, 1]] [[0, 3/4, 1]] = Inr ([0, 1/4, 1], [0, 3/4, 1], 3/4)"
  using calc_macro_roc_single_curve [of "[0, 1/4, 1]" "[0, 3/4, 1]"]
  by (simp add: trapz_def diff_def)

text \<open>
  A curve with a repeated FPR value is not returned unchanged: at a repeated value the
  interpolation takes the TPR of the last point with that FPR. For the curve
  \<open>([0,1,1], [0,0,1])\<close> the returned TPR sequence is \<open>[0,1,1]\<close> and the returned AUC is
  \<open>1/2\<close>, while the trapezoidal integral over the curve's own points is \<open>0\<close>.
\<close>

theorem calc_macro_roc_single_curve_changed:
  "calc_macro_roc [[0, 1, 1]] [[0, 0, 1]] = Inr ([0, 1, 1], [0, 1, 1], 1/2) \<and>
   trapz [0, 0, 1] [0, 1, 1] = 0 \<and>
   calc_macro_roc [[0, 1, 1]] [[0, 0, 1]] \<noteq> Inr ([0, 1, 1], [0, 0, 1], trapz [0, 0, 1] [0, 1, 1])"
  by (simp add: calc_macro_roc_def Let_def interp_def interp_at_def auc_def trapz_def
      diff_def upt_rec [of 0])

text \<open>
  C4. The fold of a perfect classifier, \<open>FPR = [0,0,1]\<close>, \<open>TPR = [0,1,1]\<close>, averaged with
  the fold of a random classifier, \<open>FPR = [0,1]\<close>, \<open>TPR = [0,1]\<close>, has a macro AUC of
  exactly \<open>3/4\<close>.
\<close>

theorem calc_macro_roc_perfect_random:
  "calc_macro_roc [[0, 0, 1], [0, 1]] [[0, 1, 1], [0, 1]] =
     Inr ([0, 0, 0, 1, 1], [1/2, 1/2, 1/2, 1, 1], 3/4)"
  by (simp add: calc_macro_roc_def interp_def interp_at_def auc_def trapz_def diff_def
      upt_rec [of 0] upt_rec [of 1] upt_rec [of 2])

text \<open>
  C7 (amended). For every input curve with at least one point, non-decreasing FPR and
  a TPR value for each FPR value, the interpolation does not fail, and at every point
  of the shared domain outside the curve's own FPR range the interpolated TPR is the
  curve's endpoint TPR: the first TPR value below the range, the last one above it.
  For a degenerate curve with exactly one point the interpolated TPR is that point's
  TPR at every domain point. (A curve with no point makes the interpolation raise.)
\<close>

theorem interp_clamps:
  assumes "xp \<noteq> []" and "length fp = length xp" and "sorted xp"
  shows "\<exists>ys. interp x xp fp = Inr ys \<and> length ys = length x \<and>
     (\<forall>k<length x.
        (x ! k < hd xp \<longrightarrow> ys ! k = hd fp) \<and>
        (last xp < x ! k \<longrightarrow> ys ! k = last fp) \<and>
        (length xp = 1 \<longrightarrow> ys ! k = hd fp))"
proof -
  have one: "interp_at v xp fp = hd fp" if "length xp = 1" for v
  proof -
    from that assms obtain a b where "xp = [a]" "fp = [b]"
      by (cases xp; cases fp) auto
    then show ?thesis by (simp add: interp_at_def)
  qed
  have "hd xp \<le> last xp"
    using assms(1,3) by (simp add: hd_conv_nth last_conv_nth sorted_iff_nth_mono)
  then have left: "v < hd xp \<Longrightarrow> interp_at v xp fp = hd fp" for v
    by (simp add: interp_at_def)
  have right: "last xp < v \<Longrightarrow> interp_at v xp fp = last fp" for v
    by (simp add: interp_at_def)
  show ?thesis using assms one left right by (simp add: interp_def)
qed

text \<open>
  The theorem at the curve \<open>([1/4, 1/2], [1/3, 2/3])\<close> on the domain \<open>[0, 1/4, 1/2, 1]\<close>,
  and a one-point curve \<open>([1/2], [1])\<close> on the domain \<open>[0, 1/2, 1]\<close>.
\<close>

theorem interp_clamps_witness:
  "sorted [1/4, 1/2 :: rat] \<and>
   interp [0, 1/4, 1/2, 1] [1/4, 1/2] [1/3, 2/3] = Inr [1/3, 1/3, 2/3, 2/3] \<and>
   interp [0, 1/2, 1] [1/2] [1] = Inr [1, 1, 1]"
  using interp_clamps [of "[1/4, 1/2]" "[1/3, 2/3]" "[0, 1/4, 1/2, 1]"]
  by (simp add: interp_def interp_at_def)

text \<open>
  A curve with fewer than two points can have none, and then the interpolation fails:
  \<open>interp\<close> raises \<^verbatim>\<open>ValueError\<close> for an empty curve, and so does the aggregation of the
  curve \<open>([0,1], [0,1])\<close> with an empty curve.
\<close>

theorem interp_empty_curve_raises:
  "interp [0, 1] [] [] = Inl ValueError \<and>
   calc_macro_roc [[0, 1], []] [[0, 1], []] = Inl ValueError"
  by (simp add: calc_macro_roc_def interp_def interp_at_def upt_rec [of 0] upt_rec [of 1])

text \<open>
  C9 (amended). \<open>calc_macro_roc\<close> on an empty sequence of curves fails: the loop does
  nothing, the shared domain is empty, and \<open>auc\<close> raises \<^verbatim>\<open>ValueError\<close> for a domain of
  fewer than two points. No result is defined for the empty input; at least one input
  curve must be supplied.
\<close>

theorem calc_macro_roc_empty_raises:
  "calc_macro_roc [] [] = Inl ValueError \<and>
   accumulate [] [] [] [0..<length ([] :: rat list list)] [] = Inr [] \<and>
   auc [] [] = Inl ValueError"
  by (simp add: calc_macro_roc_def auc_def)

text \<open>
  The failure on the empty input is not a division by zero: dividing the empty array by
  a fold count of zero raises nothing.
\<close>

theorem calc_macro_roc_empty_not_zero_division:
  "calc_macro_roc [] [] \<noteq> Inl ZeroDivisionError"
  by (simp add: calc_macro_roc_def auc_def)

section \<open>Properties of the pipeline\<close>

lemma write_resultsets_absent:
  "write_resultsets [(k1, v1), (k2, v2)] [k1, k2] files = (err, files') \<Longrightarrow>
   k1 \<noteq> k2 \<Longrightarrow> v1 = None \<or> v2 = None \<Longrightarrow> err \<noteq> None"
  by (auto split: option.splits prod.splits if_splits)

lemma run_experiments_toggles:
  "run_experiments ext env isbigram islstm nfolds = Inr (b, l) \<Longrightarrow>
   (b \<noteq> None \<longleftrightarrow> truthy isbigram) \<and> (l \<noteq> None \<longleftrightarrow> truthy islstm)"
  by (auto simp: run_experiments_def split: if_splits sum.splits)

text \<open>
  With both models enabled the sample run completes: it saves a figure with the two
  lines.
\<close>

lemma create_figs_both_models:
  "fst (create_figs (demo_externs False) Map.empty (PyBool True) (PyBool True) 1 (PyBool False)
          fresh_world) = None \<and>
   results_png (snd (create_figs (demo_externs False) Map.empty (PyBool True) (PyBool True) 1
          (PyBool False) fresh_world)) =
     Some [Line ''LSTM'' [0, 0, 1] [1, 1, 1] 1, Line ''Bigrams'' [0, 0, 1] [1, 1, 1] 1]"
  by (simp add: create_figs_def load_or_run_def run_experiments_def environ_int_def
      mk_results_def write_results_to_csv_def demo_externs_def demo_fold_def fresh_world_def
      csv_name_def str_nat.simps [of 0] upt_rec [of 0] upt_rec [of 1] model_macro_def
      save_figure_def calc_macro_roc_def interp_def interp_at_def auc_def trapz_def diff_def)

text \<open>
  C5 (violated by the code). The specification asks that with exactly one model
  enabled the pipeline completes, the report holds the one curve of the enabled model
  and no CSV file is written for the absent one. In the code, whenever the results are
  regenerated with a model disabled, \<open>create_figs\<close> ends in an exception and saves no
  figure. \<open>write_results_to_csv\<close> takes \<^verbatim>\<open>len(None)\<close> of the absent entry, which is a
  \<^verbatim>\<open>TypeError\<close>, unless a fold of the other model has already raised.
\<close>

theorem create_figs_absent_model_raises:
  assumes "truthy force \<or> artifact w = Missing"
    and "\<not> truthy islstm \<or> \<not> truthy isbigram"
  shows "fst (create_figs ext env isbigram islstm nfolds force w) \<noteq> None \<and>
         results_png (snd (create_figs ext env isbigram islstm nfolds force w)) = results_png w"
proof (cases "run_experiments ext env isbigram islstm nfolds")
  case (Inl e)
  with assms(1) show ?thesis by (auto simp: create_figs_def load_or_run_def)
next
  case (Inr p)
  obtain b l where p: "p = (b, l)" by (cases p)
  from Inr p assms(2) have bl: "b = None \<or> l = None"
    using run_experiments_toggles [of ext env isbigram islstm nfolds b l] by auto
  obtain err files where wr:
    "write_resultsets (mk_results ext b l) (map fst (mk_results ext b l)) (csv_files w) = (err, files)"
    by (cases "write_resultsets (mk_results ext b l) (map fst (mk_results ext b l)) (csv_files w)")
  have "err \<noteq> None"
  proof (cases "lstm_first ext")
    case True
    with wr bl show ?thesis
      using write_resultsets_absent [of "''lstm''" l "''bigram''" b "csv_files w" err files]
      by (auto simp: mk_results_def)
  next
    case False
    with wr bl show ?thesis
      using write_resultsets_absent [of "''bigram''" b "''lstm''" l "csv_files w" err files]
      by (auto simp: mk_results_def)
  qed
  then obtain e where "err = Some e" by auto
  with Inr p assms(1) wr show ?thesis
    by (simp add: create_figs_def load_or_run_def write_results_to_csv_def)
qed

text \<open>
  The sample run with only the bigram model enabled (\<^verbatim>\<open>LSTM\<close> set to the empty string), in
  either order of the dictionary's keys: \<^verbatim>\<open>TypeError\<close>, no figure; when the bigram key
  comes first its CSV file has been written before the exception.
\<close>

theorem create_figs_only_bigram_raises:
  "fst (create_figs (demo_externs False) Map.empty (PyBool True) (PyStr []) 1 (PyBool False)
          fresh_world) = Some TypeError \<and>
   fst (create_figs (demo_externs True) Map.empty (PyBool True) (PyStr []) 1 (PyBool False)
          fresh_world) = Some TypeError \<and>
   results_png (snd (create_figs (demo_externs False) Map.empty (PyBool True) (PyStr []) 1
          (PyBool False) fresh_world)) = None \<and>
   csv_files (snd (create_figs (demo_externs False) Map.empty (PyBool True) (PyStr []) 1
          (PyBool False) fresh_world)) ''bigram-0-resultset.csv'' =
     Some [(''example.com'', 0, 1/4, 0), (''xkqzv.biz'', 1, 3/4, 1)]"
  using create_figs_absent_model_raises
    [of "PyBool False" fresh_world "PyStr []" "PyBool True" "demo_externs False" Map.empty 1]
  by (simp add: create_figs_def load_or_run_def run_experiments_def environ_int_def
      mk_results_def write_results_to_csv_def demo_externs_def demo_fold_def fresh_world_def
      csv_name_def str_nat.simps [of 0] upt_rec [of 0] upt_rec [of 1])

text \<open>
  C6. For every combined results value \<open>X\<close>, also one in which a model's entry is
  \<^verbatim>\<open>None\<close>, storing \<open>X\<close> to the cache artifact and loading it back yields \<open>X\<close>. The
  code stores and loads in this way: a run that regenerates returns the results of
  \<open>run_experiments\<close> and leaves them stored, a run from an existing artifact without
  the force flag returns what it loads, and so every later run without the force flag
  returns exactly the results of the run before it.
\<close>

theorem cache_round_trip:
  "pickle_load (pickle_dump X w) = Inr X \<and>
   (\<forall>b l. (truthy force \<or> artifact w = Missing) \<and>
      run_experiments ext env isbigram islstm nfolds = Inr (b, l) \<longrightarrow>
      load_or_run ext env isbigram islstm nfolds force w =
        Inr (mk_results ext b l, pickle_dump (mk_results ext b l) w)) \<and>
   (\<not> truthy force \<and> artifact w \<noteq> Missing \<longrightarrow>
      load_or_run ext env isbigram islstm nfolds force w =
        (case pickle_load w of Inl e \<Rightarrow> Inl e | Inr Y \<Rightarrow> Inr (Y, w))) \<and>
   (\<forall>Y w1. load_or_run ext env isbigram islstm nfolds force w = Inr (Y, w1) \<and>
      \<not> truthy force' \<longrightarrow>
      load_or_run ext' env' isbigram' islstm' nfolds' force' w1 = Inr (Y, w1))"
proof -
  have rt: "pickle_load (pickle_dump X w) = Inr X"
    by (simp add: pickle_load_def pickle_dump_def)
  have store: "load_or_run ext env isbigram islstm nfolds force w =
        Inr (mk_results ext b l, pickle_dump (mk_results ext b l) w)"
    if "truthy force \<or> artifact w = Missing"
      and "run_experiments ext env isbigram islstm nfolds = Inr (b, l)" for b l
    using that by (auto simp: load_or_run_def pickle_dump_def)
  have load: "load_or_run ext env isbigram islstm nfolds force w =
        (case pickle_load w of Inl e \<Rightarrow> Inl e | Inr Y \<Rightarrow> Inr (Y, w))"
    if "\<not> truthy force" and "artifact w \<noteq> Missing"
    using that by (cases "artifact w") (simp_all add: load_or_run_def pickle_load_def)
  have again: "load_or_run ext' env' isbigram' islstm' nfolds' force' w1 = Inr (Y, w1)"
    if "load_or_run ext env isbigram islstm nfolds force w = Inr (Y, w1)"
      and "\<not> truthy force'" for Y w1
  proof -
    from that(1) have "artifact w1 = Pickled Y"
      by (auto simp: load_or_run_def split: if_splits sum.splits artifact.splits)
    with that(2) show ?thesis by (simp add: load_or_run_def)
  qed
  from rt store load again show ?thesis by blast
qed

text \<open>
  The theorem at the results of a run with only the bigram model: stored in a state
  with no files and loaded back, and the regenerating run followed by a run without the
  force flag (which asks for both models and ten folds, and gets the cached results).
\<close>

theorem cache_round_trip_witness:
  "pickle_load (pickle_dump [(''bigram'', Some [demo_fold]), (''lstm'', None)] fresh_world) =
     Inr [(''bigram'', Some [demo_fold]), (''lstm'', None)] \<and>
   load_or_run (demo_externs False) Map.empty (PyBool True) (PyBool False) 1 (PyBool False)
     fresh_world =
     Inr ([(''bigram'', Some [demo_fold]), (''lstm'', None)],
          pickle_dump [(''bigram'', Some [demo_fold]), (''lstm'', None)] fresh_world) \<and>
   load_or_run (demo_externs False) Map.empty (PyBool True) (PyBool True) 10 (PyBool False)
     (pickle_dump [(''bigram'', Some [demo_fold]), (''lstm'', None)] fresh_world) =
     Inr ([(''bigram'', Some [demo_fold]), (''lstm'', None)],
          pickle_dump [(''bigram'', Some [demo_fold]), (''lstm'', None)] fresh_world)"
  using cache_round_trip
    [where X = "[(''bigram'', Some [demo_fold]), (''lstm'', None)]" and w = fresh_world
       and force = "PyBool False" and ext = "demo_externs False" and env = Map.empty
       and isbigram = "PyBool True" and islstm = "PyBool False" and nfolds = 1
       and force' = "PyBool False" and ext' = "demo_externs False" and env' = Map.empty
       and isbigram' = "PyBool True" and islstm' = "PyBool True" and nfolds' = 10]
  by (simp add: load_or_run_def run_experiments_def environ_int_def mk_results_def
      pickle_dump_def pickle_load_def demo_externs_def fresh_world_def)

text \<open>
  C8. When the cache artifact exists and the force flag is false, \<open>create_figs\<close> does
  not depend on \<open>isbigram\<close>, \<open>islstm\<close> and \<open>nfolds\<close>: two runs from the same state that
  differ only in these arguments end with the same outcome and the same state.
\<close>

theorem create_figs_cached_ignores_arguments:
  assumes "artifact w \<noteq> Missing" and "\<not> truthy force"
  shows "create_figs ext env isbigram islstm nfolds force w =
         create_figs ext env isbigram' islstm' nfolds' force w"
  using assms by (simp add: create_figs_def load_or_run_def)

text \<open>
  The theorem at a state whose artifact holds the results of both models: the run with
  both models enabled and ten folds and the run with both models disabled and three
  folds are the same run.
\<close>

theorem create_figs_cached_ignores_arguments_witness:
  "artifact cached_world \<noteq> Missing \<and> \<not> truthy (PyBool False) \<and>
   create_figs (demo_externs False) Map.empty (PyBool True) (PyBool True) 10 (PyBool False)
     cached_world =
   create_figs (demo_externs False) Map.empty (PyStr []) (PyBool False) 3 (PyBool False)
     cached_world"
  using create_figs_cached_ignores_arguments
    [of cached_world "PyBool False" "demo_externs False" Map.empty
        "PyBool True" "PyBool True" 10 "PyStr []" "PyBool False" 3]
  by (simp add: cached_world_def)

text \<open>
  C10. The model toggles and the force flag resolved from the environment are true for
  every non-empty string: \<^verbatim>\<open>BIGRAM\<close> and \<^verbatim>\<open>LSTM\<close> are false only when set to the empty
  string (unset, they default to true), \<^verbatim>\<open>FORCE\<close> is false only when unset or empty. So
  the strings \<^verbatim>\<open>"0"\<close> and \<^verbatim>\<open>"False"\<close> are true, and \<open>run_experiments\<close> with the resolved
  toggles runs a model exactly when its variable is not the empty string. With
  \<^verbatim>\<open>FORCE\<close> set to a non-empty string the results are regenerated by \<open>run_experiments\<close>
  and stored, whatever the cache artifact holds; with \<^verbatim>\<open>FORCE\<close> unset or empty an existing
  artifact is loaded and left as it is.
\<close>

theorem environment_toggles:
  "(truthy (default_isbigram env) \<longleftrightarrow> env ''BIGRAM'' \<noteq> Some []) \<and>
   (truthy (default_islstm env) \<longleftrightarrow> env ''LSTM'' \<noteq> Some []) \<and>
   (truthy (default_force env) \<longleftrightarrow> env ''FORCE'' \<noteq> None \<and> env ''FORCE'' \<noteq> Some []) \<and>
   truthy (PyStr ''0'') \<and> truthy (PyStr ''False'') \<and>
   (\<forall>b l. run_experiments ext env (default_isbigram env) (default_islstm env) nfolds = Inr (b, l)
      \<longrightarrow> (b \<noteq> None \<longleftrightarrow> env ''BIGRAM'' \<noteq> Some []) \<and> (l \<noteq> None \<longleftrightarrow> env ''LSTM'' \<noteq> Some [])) \<and>
   (env ''FORCE'' \<noteq> None \<and> env ''FORCE'' \<noteq> Some [] \<longrightarrow>
      load_or_run ext env isbigram islstm nfolds (default_force env) w =
        (case run_experiments ext env isbigram islstm nfolds of
           Inl e \<Rightarrow> Inl e
         | Inr (b, l) \<Rightarrow>
             Inr (mk_results ext b l, w\<lparr>artifact := Pickled (mk_results ext b l)\<rparr>))) \<and>
   ((env ''FORCE'' = None \<or> env ''FORCE'' = Some []) \<and> artifact w = Pickled X \<longrightarrow>
      load_or_run ext env isbigram islstm nfolds (default_force env) w = Inr (X, w))"
proof -
  have t: "(truthy (default_isbigram env) \<longleftrightarrow> env ''BIGRAM'' \<noteq> Some []) \<and>
           (truthy (default_islstm env) \<longleftrightarrow> env ''LSTM'' \<noteq> Some []) \<and>
           (truthy (default_force env) \<longleftrightarrow> env ''FORCE'' \<noteq> None \<and> env ''FORCE'' \<noteq> Some [])"
    by (auto simp: default_isbigram_def default_islstm_def default_force_def environ_get_def
        split: option.splits)
  have forced: "load_or_run ext env isbigram islstm nfolds (default_force env) w =
        (case run_experiments ext env isbigram islstm nfolds of
           Inl e \<Rightarrow> Inl e
         | Inr (b, l) \<Rightarrow>
             Inr (mk_results ext b l, w\<lparr>artifact := Pickled (mk_results ext b l)\<rparr>))"
    if "env ''FORCE'' \<noteq> None" and "env ''FORCE'' \<noteq> Some []"
  proof -
    from that t have "truthy (default_force env)" by simp
    then show ?thesis by (simp add: load_or_run_def)
  qed
  have cached: "load_or_run ext env isbigram islstm nfolds (default_force env) w = Inr (X, w)"
    if "env ''FORCE'' = None \<or> env ''FORCE'' = Some []" and "artifact w = Pickled X"
  proof -
    from that(1) t have "\<not> truthy (default_force env)" by auto
    with that(2) show ?thesis by (simp add: load_or_run_def)
  qed
  show ?thesis
    using t forced cached
      run_experiments_toggles [of ext env "default_isbigram env" "default_islstm env" nfolds]
    by auto
qed

text \<open>
  The theorem at an environment with \<^verbatim>\<open>BIGRAM=0\<close>, \<^verbatim>\<open>LSTM=False\<close> and \<^verbatim>\<open>FORCE=0\<close>: all three
  toggles are true and both models run. With \<^verbatim>\<open>LSTM\<close> set to the empty string the LSTM
  model is skipped. With \<^verbatim>\<open>LSTM\<close> empty and \<^verbatim>\<open>FORCE=False\<close>, a state whose artifact holds
  the results of both models is regenerated, with no LSTM results; with \<^verbatim>\<open>FORCE\<close> empty
  the artifact is loaded.
\<close>

theorem environment_toggles_witness:
  "truthy (default_isbigram [''BIGRAM'' \<mapsto> ''0'', ''LSTM'' \<mapsto> ''False'', ''FORCE'' \<mapsto> ''0'']) \<and>
   truthy (default_islstm [''BIGRAM'' \<mapsto> ''0'', ''LSTM'' \<mapsto> ''False'', ''FORCE'' \<mapsto> ''0'']) \<and>
   truthy (default_force [''BIGRAM'' \<mapsto> ''0'', ''LSTM'' \<mapsto> ''False'', ''FORCE'' \<mapsto> ''0'']) \<and>
   run_experiments (demo_externs False)
     [''BIGRAM'' \<mapsto> ''0'', ''LSTM'' \<mapsto> ''False'', ''FORCE'' \<mapsto> ''0'']
     (default_isbigram [''BIGRAM'' \<mapsto> ''0'', ''LSTM'' \<mapsto> ''False'', ''FORCE'' \<mapsto> ''0''])
     (default_islstm [''BIGRAM'' \<mapsto> ''0'', ''LSTM'' \<mapsto> ''False'', ''FORCE'' \<mapsto> ''0'']) 1 =
     Inr (Some [demo_fold], Some [demo_fold]) \<and>
   run_experiments (demo_externs False) [''LSTM'' \<mapsto> []]
     (default_isbigram [''LSTM'' \<mapsto> []]) (default_islstm [''LSTM'' \<mapsto> []]) 1 =
     Inr (Some [demo_fold], None) \<and>
   load_or_run (demo_externs False) [''LSTM'' \<mapsto> [], ''FORCE'' \<mapsto> ''False'']
     (default_isbigram [''LSTM'' \<mapsto> [], ''FORCE'' \<mapsto> ''False''])
     (default_islstm [''LSTM'' \<mapsto> [], ''FORCE'' \<mapsto> ''False'']) 1
     (default_force [''LSTM'' \<mapsto> [], ''FORCE'' \<mapsto> ''False'']) cached_world =
     Inr ([(''bigram'', Some [demo_fold]), (''lstm'', None)],
          cached_world\<lparr>artifact := Pickled [(''bigram'', Some [demo_fold]), (''lstm'', None)]\<rparr>) \<and>
   load_or_run (demo_externs False) [''LSTM'' \<mapsto> [], ''FORCE'' \<mapsto> []]
     (default_isbigram [''LSTM'' \<mapsto> [], ''FORCE'' \<mapsto> []])
     (default_islstm [''LSTM'' \<mapsto> [], ''FORCE'' \<mapsto> []]) 1
     (default_force [''LSTM'' \<mapsto> [], ''FORCE'' \<mapsto> []]) cached_world =
     Inr ([(''bigram'', Some [demo_fold]), (''lstm'', Some [demo_fold])], cached_world)"
  using environment_toggles
    [where env = "[''BIGRAM'' \<mapsto> ''0'', ''LSTM'' \<mapsto> ''False'', ''FORCE'' \<mapsto> ''0'']"
       and ext = "demo_externs False" and nfolds = 1 and w = cached_world
       and isbigram = "PyBool True" and islstm = "PyBool True"
       and X = "[(''bigram'', Some [demo_fold]), (''lstm'', Some [demo_fold])]"]
  by (simp add: default_isbigram_def default_islstm_def default_force_def environ_get_def
      load_or_run_def run_experiments_def environ_int_def mk_results_def demo_externs_def
      cached_world_def)

end
